theory Spec2Isabelle
  imports Main "HOL-Library.Word" "HOL-Library.Char_ord" "HOL-Library.List_Lexorder" "HOL-Library.Sublist"
begin

section \<open>Smart Quality Cost Monitoring Dashboard (app.py)\<close>

text \<open>
  The application is one Streamlit script. Its table \<^verbatim>\<open>st.session_state["data"]\<close> is a
  pandas DataFrame with the columns Month, Category, Cost and Description. The aggregation
  pages read the columns Month, Category and Cost; they are modelled over tables whose rows
  carry a string month, a string category, a cost and a string description. Neither the
  month nor the category is restricted to the names of the two select boxes, and the cost
  may be negative: an uploaded file can hold anything of these types. The Cost column is an
  int64 column, as pandas reads a column of whole amounts from a CSV file: a cost is a 64-bit
  word, read as a signed number by \<open>sint\<close>, and sums of costs wrap around as pandas' sums
  of int64 values do. Tables with decimal amounts (a float64 column) are outside the model.
\<close>

subsection \<open>Data model\<close>

type_synonym int64 = "64 word"

record CostRecord =
  Month :: string
  Category :: string
  Cost :: int64
  Description :: string

type_synonym RecordTable = "CostRecord list"

text \<open>Line 111 and 165, 245: the options of the month select box, also the month order.\<close>

definition month_order :: "string list" where
  "month_order = [''Jan'', ''Feb'', ''Mar'', ''Apr'', ''May'', ''Jun'',
                  ''Jul'', ''Aug'', ''Sep'', ''Oct'', ''Nov'', ''Dec'']"




subsection \<open>Aggregation (lines 135-173, 196-202, 240-252)\<close>

text \<open>
  \<^verbatim>\<open>df.groupby(key)["Cost"].sum().reset_index()\<close>: one row for each distinct key of the
  table, the keys in ascending order (pandas sorts the group keys; strings compare by code
  point), with the sum of the costs of the rows of that key. The sum is an int64 sum: it
  wraps around.
\<close>

definition groupby_sum :: "(CostRecord \<Rightarrow> string) \<Rightarrow> RecordTable \<Rightarrow> (string \<times> int64) list" where
  "groupby_sum key df =
     map (\<lambda>k. (k, sum_list (map Cost (filter (\<lambda>r. key r = k) df)))) (sort (remdups (map key df)))"

text \<open>
  \<^verbatim>\<open>summary.loc[summary['Category']==c, 'Cost'].sum()\<close>: the sum over the rows of the summary
  whose key is \<open>c\<close>, again an int64; the sum of no rows is 0.
\<close>

definition loc_sum :: "(string \<times> int64) list \<Rightarrow> string \<Rightarrow> int64" where
  "loc_sum summary c = sum_list (map snd (filter (\<lambda>kv. fst kv = c) summary))"

text \<open>
  Lines 196-202 (and 138-141): the four category sums, read from the summary in the fixed
  order Prevention, Appraisal, Internal Failure, External Failure.
\<close>

definition summarizeByCategory :: "RecordTable \<Rightarrow> (string \<times> int64) list" where
  "summarizeByCategory df =
     (let summary = groupby_sum Category df
      in [(''Prevention'', loc_sum summary ''Prevention''),
          (''Appraisal'', loc_sum summary ''Appraisal''),
          (''Internal Failure'', loc_sum summary ''Internal Failure''),
          (''External Failure'', loc_sum summary ''External Failure'')])"

record KpiSnapshot =
  COGQ :: int64
  COPQ :: int64
  total :: int64

text \<open>
  Lines 135-144 of the dashboard page; lines 240-243 of the reports page are the same. The
  additions are additions of int64 values.
\<close>

definition computeKpis :: "RecordTable \<Rightarrow> KpiSnapshot" where
  "computeKpis df =
     (let summary = groupby_sum Category df;
          prevention = loc_sum summary ''Prevention'';
          appraisal = loc_sum summary ''Appraisal'';
          internal = loc_sum summary ''Internal Failure'';
          external = loc_sum summary ''External Failure'';
          cogq = prevention + appraisal;
          copq = internal + external
      in \<lparr>COGQ = cogq, COPQ = copq, total = cogq + copq\<rparr>)"

text \<open>
  The conversion of an int64 to float64. A float64 has 53 significant bits, so a number of
  more bits is rounded to a multiple of a power of two, the nearer one, and of two equally
  near ones the one whose multiplier is even. The result is given by its value, a whole
  number. \<open>float64_exponent\<close> is the number of bits beyond 53.
\<close>

definition float64_exponent :: "int \<Rightarrow> nat" where
  "float64_exponent x = length (filter (\<lambda>k. 2 ^ k \<le> \<bar>x\<bar>) [53..<64])"

definition round_half_even :: "int \<Rightarrow> nat \<Rightarrow> int" where
  "round_half_even x e =
     (if e = 0 then x
      else (let q = x div 2 ^ e; r = x mod 2 ^ e; h = 2 ^ (e - 1)
            in (if h < r \<or> (r = h \<and> odd q) then q + 1 else q) * 2 ^ e))"

definition float64_of_int64 :: "int64 \<Rightarrow> int" where
  "float64_of_int64 w = round_half_even (sint w) (float64_exponent (sint w))"

text \<open>
  \<^verbatim>\<open>.reindex(month_order)\<close>: one entry for each label of the new index, in its order, with
  the value of the series at that label, or NaN (\<open>None\<close>) where the series has none. A
  number is given by its value. When every label is found the values stay int64; when one is
  missing the column has to hold NaN, and pandas converts it to float64.
\<close>

definition reindex :: "(string \<times> int64) list \<Rightarrow> string list \<Rightarrow> (string \<times> int option) list" where
  "reindex series idx =
     (if list_all (\<lambda>m. m \<in> fst ` set series) idx
      then map (\<lambda>m. (m, map_option sint (map_of series m))) idx
      else map (\<lambda>m. (m, map_option float64_of_int64 (map_of series m))) idx)"

text \<open>\<^verbatim>\<open>.dropna(subset=["Cost"])\<close>: the rows whose cost is not NaN.\<close>

fun dropna :: "(string \<times> int option) list \<Rightarrow> (string \<times> int) list" where
  "dropna [] = []"
| "dropna ((m, None) # xs) = dropna xs"
| "dropna ((m, Some v) # xs) = (m, v) # dropna xs"

text \<open>Lines 165-173: the monthly trend of the dashboard page.\<close>

definition monthlyTrend :: "RecordTable \<Rightarrow> (string \<times> int) list" where
  "monthlyTrend df = dropna (reindex (groupby_sum Month df) month_order)"

text \<open>\<^verbatim>\<open>.tail(n)\<close>: the last \<open>n\<close> rows, all of them when there are fewer.\<close>

definition tail :: "nat \<Rightarrow> 'a list \<Rightarrow> 'a list" where
  "tail n xs = drop (length xs - n) xs"

text \<open>
  Line 252, the "recent 3-month trend" of the reports page:
  \<^verbatim>\<open>df.groupby("Month")["Cost"].sum().reset_index().tail(3)\<close>. There is no reindex here.
\<close>

definition month_trend :: "RecordTable \<Rightarrow> (string \<times> int64) list" where
  "month_trend df = tail 3 (groupby_sum Month df)"

text \<open>
  \<^verbatim>\<open>df[mask]["Cost"].sum()\<close>: the int64 sum of the costs of the rows that a predicate
  selects; it wraps around.
\<close>

definition cost_where :: "(CostRecord \<Rightarrow> bool) \<Rightarrow> RecordTable \<Rightarrow> int64" where
  "cost_where P df = sum_list (map Cost (filter P df))"


subsection \<open>Data frames and ingestion (lines 94-127)\<close>

text \<open>
  The upload page receives whatever table the uploaded file parses to, so here the table is
  a data frame in general: a list of column names and rows of cells, one cell for each
  column. A cell is a string, a number or NaN (pandas' missing value). Cells are only
  compared and moved, never added up, so a number cell is given by its value.
\<close>

datatype cell = Str string | Num int | NaN

record frame =
  columns :: "string list"
  rows :: "cell list list"

definition wf_frame :: "frame \<Rightarrow> bool" where
  "wf_frame f = (distinct (columns f) \<and> list_all (\<lambda>r. length r = length (columns f)) (rows f))"

text \<open>Lines 24, 88, 118: the four columns of the table.\<close>

definition schema :: "string list" where
  "schema = [''Month'', ''Category'', ''Cost'', ''Description'']"

text \<open>
  A row of a frame with the columns \<open>src\<close>, laid out under the columns \<open>dst\<close>: the cell
  of each column that the row has, NaN under a column that it lacks.
\<close>

definition realign :: "string list \<Rightarrow> string list \<Rightarrow> cell list \<Rightarrow> cell list" where
  "realign src dst row = map (\<lambda>c. case map_of (zip src row) c of Some v \<Rightarrow> v | None \<Rightarrow> NaN) dst"

text \<open>
  \<^verbatim>\<open>pd.concat([a, b], ignore_index=True)\<close>: the columns of \<open>a\<close> followed by the columns
  that only \<open>b\<close> has; the rows of \<open>a\<close>, then the rows of \<open>b\<close>, each under these columns.
  Nothing is checked: frames of any columns concatenate.
\<close>

definition pd_concat :: "frame \<Rightarrow> frame \<Rightarrow> frame" where
  "pd_concat a b =
     (let cols = columns a @ filter (\<lambda>c. c \<notin> set (columns a)) (columns b)
      in \<lparr>columns = cols,
          rows = map (realign (columns a) cols) (rows a) @ map (realign (columns b) cols) (rows b)\<rparr>)"

text \<open>
  \<^verbatim>\<open>.drop_duplicates().reset_index(drop=True)\<close>: pandas keeps a row unless an equal row
  came before it (\<^verbatim>\<open>keep='first'\<close>); two NaN cells count as equal.
\<close>

fun drop_seen :: "'a list \<Rightarrow> 'a list \<Rightarrow> 'a list" where
  "drop_seen seen [] = []"
| "drop_seen seen (x # xs) =
     (if x \<in> set seen then drop_seen seen xs else x # drop_seen (x # seen) xs)"

definition drop_duplicates :: "frame \<Rightarrow> frame" where
  "drop_duplicates f = f\<lparr>rows := drop_seen [] (rows f)\<rparr>"


text \<open>
  What it means that \<open>row'\<close> is the row \<open>row\<close> of a frame with the columns \<open>src\<close>, laid
  out under the columns \<open>dst\<close>: it has a cell for each column of \<open>dst\<close>; under a column
  that \<open>src\<close> has too, the cell is the cell that \<open>row\<close> has under that column; under any
  other column it is NaN.
\<close>

definition aligned :: "string list \<Rightarrow> string list \<Rightarrow> cell list \<Rightarrow> cell list \<Rightarrow> bool" where
  "aligned src dst row row' =
     (length row' = length dst \<and>
      (\<forall>i<length dst.
         (dst ! i \<notin> set src \<longrightarrow> row' ! i = NaN) \<and>
         (\<forall>j<length src. src ! j = dst ! i \<longrightarrow> row' ! i = row ! j)))"



subsection \<open>Session state, files and what a page shows\<close>

text \<open>
  Python strings that hold generated text are lists of Unicode code points, so that the
  rupee sign (U+20B9) is one character, as it is for \<^verbatim>\<open>str.replace\<close>.
\<close>

type_synonym ustr = "nat list"

text \<open>The KPI bar chart: the rows of \<^verbatim>\<open>kpi_df\<close> (lines 151-152).\<close>

type_synonym figure = "(string \<times> int64) list"

text \<open>
  What the exported document holds besides its fixed headings (lines 303-331): the three
  amounts, the chart image and the insight text. The date line is left out.
\<close>

record pdf_doc =
  doc_COGQ :: int64
  doc_COPQ :: int64
  doc_total :: int64
  doc_chart :: figure
  doc_insights :: ustr

text \<open>
  The state that outlives one run of the script: the three session entries \<^verbatim>\<open>data\<close>,
  \<^verbatim>\<open>report\<close>, \<^verbatim>\<open>fig_kpi\<close> (absent is \<open>None\<close>) and the three files
  \<^verbatim>\<open>quality_data.csv\<close>, \<^verbatim>\<open>kpi_chart.png\<close>, \<^verbatim>\<open>Monthly_Quality_Report.pdf\<close>. The table
  is a frame on the upload page and a table of typed rows on the other pages.
\<close>

record 'df world =
  data :: 'df
  report :: "ustr option"
  fig_kpi :: "figure option"
  csv_file :: "'df option"
  chart_png :: "figure option"
  pdf_file :: "pdf_doc option"

text \<open>The elements a run puts on the page; message texts without their emoji.\<close>

datatype ui =
    StSuccess string
  | StWarning string
  | StError string
  | SuggestionBox ustr
  | Metrics KpiSnapshot
  | BarChart figure
  | PieChart "(string \<times> int64) list"
  | LineChart "(string \<times> int) list"
  | DownloadButton pdf_doc

text \<open>
  How a run ends: at the end of the script, at \<^verbatim>\<open>st.stop()\<close>, or with an exception that
  nothing catches. \<open>Raised\<close> carries the message of the exception; \<open>RaisedEncoding\<close> is
  the exception of the PDF library for a character that its font cannot encode (its class
  and message depend on the version of the library).
\<close>

datatype outcome = Done | Stopped | Raised string | RaisedEncoding

text \<open>
  Lines 97-105. \<^verbatim>\<open>pd.read_csv\<close> either raises (\<open>Inl\<close> with the message) or gives a frame;
  no file chosen is \<open>None\<close>. The exception of \<^verbatim>\<open>read_csv\<close> is not caught, so the run
  ends there, before any assignment.
\<close>

definition upload_file :: "frame world \<Rightarrow> (string + frame) option \<Rightarrow> frame world \<times> ui list \<times> outcome" where
  "upload_file w uploaded_file =
     (case uploaded_file of
        None \<Rightarrow> (w, [], Done)
      | Some (Inl e) \<Rightarrow> (w, [], Raised e)
      | Some (Inr uploaded_df) \<Rightarrow>
          (let df = drop_duplicates (pd_concat (data w) uploaded_df)
           in (w\<lparr>data := df, csv_file := Some df\<rparr>,
               [StSuccess ''File uploaded and merged successfully!''], Done)))"


subsection \<open>Dashboard page (lines 131-185)\<close>

definition dashboard :: "RecordTable world \<Rightarrow> RecordTable world \<times> ui list \<times> outcome" where
  "dashboard w =
     (let df = data w
      in if df = [] then (w, [StWarning ''No data available. Please upload or add some records first.''], Done)
         else
           (let summary = groupby_sum Category df;
                k = computeKpis df;
                fig = [(''Good Quality (COGQ)'', COGQ k), (''Poor Quality (COPQ)'', COPQ k)]
            in (w\<lparr>fig_kpi := Some fig\<rparr>,
                [Metrics k, BarChart fig, PieChart summary, LineChart (monthlyTrend df)], Done)))"

subsection \<open>The language model (lines 84, 204-229, 249-283)\<close>

text \<open>
  A prompt is a fixed text around the numbers it embeds; the model keeps the numbers. A
  request also names the model and the temperature (in tenths).
\<close>

datatype prompt =
    SuggestionPrompt "(string \<times> int64) list"
  | ReportPrompt "string option" int64 "(string \<times> int64) list" KpiSnapshot

record request =
  model :: string
  content :: prompt
  temperature_tenths :: nat

text \<open>
  \<^verbatim>\<open>s.replace(old, new)\<close> where \<open>old\<close> is one character: every occurrence of the character
  becomes \<open>new\<close>.
\<close>

definition replace_char :: "nat \<Rightarrow> ustr \<Rightarrow> ustr \<Rightarrow> ustr" where
  "replace_char old new s = concat (map (\<lambda>c. if c = old then new else [c]) s)"

text \<open>The characters of lines 226, 289 and 324: asterisk, bullet (U+2022), rupee sign (U+20B9).\<close>

definition asterisk :: nat where "asterisk = 42"

definition bullet :: nat where "bullet = 8226"

definition rupee :: nat where "rupee = 8377"

definition Rs :: ustr where "Rs = [82, 115, 46]"

definition suggestion_request :: "RecordTable \<Rightarrow> request" where
  "suggestion_request df =
     \<lparr>model = ''gpt-4o-mini'', content = SuggestionPrompt (summarizeByCategory df), temperature_tenths = 6\<rparr>"

text \<open>
  Lines 193-229, the button "Generate AI Suggestions". The argument \<open>llm\<close> is what the
  \<^verbatim>\<open>try\<close> block computes from a request: the text of the first choice, or the message of
  the exception that the call raised.
\<close>

definition generate_suggestions :: "(request \<Rightarrow> string + ustr) \<Rightarrow> RecordTable world \<Rightarrow> RecordTable world \<times> ui list \<times> outcome" where
  "generate_suggestions llm w =
     (if data w = [] then (w, [StWarning ''Please upload or add data first.''], Done)
      else
        (case llm (suggestion_request (data w)) of
           Inr suggestions \<Rightarrow> (w, [SuggestionBox (replace_char asterisk [bullet] suggestions)], Done)
         | Inl e \<Rightarrow> (w, [StError (''Error: '' @ e)], Done)))"

text \<open>Line 246: the months the select box of the reports page offers.\<close>

definition available_months :: "RecordTable \<Rightarrow> string list" where
  "available_months df = filter (\<lambda>m. m \<in> set (map Month df)) month_order"

text \<open>
  Lines 250-259: the selected month is \<open>None\<close> when the select box has no option; no row
  has that month.
\<close>

definition report_request :: "RecordTable \<Rightarrow> string option \<Rightarrow> request" where
  "report_request df selected_month =
     (let month_total = cost_where (\<lambda>r. Some (Month r) = selected_month) df
      in \<lparr>model = ''gpt-4o-mini'',
          content = ReportPrompt selected_month month_total (month_trend df) (computeKpis df),
          temperature_tenths = 7\<rparr>)"

text \<open>Lines 237-283, the button "Generate Monthly Report".\<close>

definition generate_report :: "(request \<Rightarrow> string + ustr) \<Rightarrow> RecordTable world \<Rightarrow> string option \<Rightarrow> RecordTable world \<times> ui list \<times> outcome" where
  "generate_report llm w selected_month =
     (if data w = [] then (w, [StWarning ''Please upload or add data first.''], Done)
      else
        (case llm (report_request (data w) selected_month) of
           Inr text \<Rightarrow>
             (w\<lparr>report := Some text\<rparr>,
              [StSuccess ''Monthly report generated successfully!'', SuggestionBox text], Done)
         | Inl e \<Rightarrow> (w, [StError (''Error generating report: '' @ e)], Done)))"

subsection \<open>PDF export (lines 285-338)\<close>

text \<open>
  The fonts of the PDF library encode Latin-1 only: a text with a character beyond U+00FF
  makes the library raise (in \<^verbatim>\<open>multi_cell\<close>, line 325, or in \<^verbatim>\<open>output\<close>, line 331, before
  the file is opened), and no PDF file is written. The headings and the three amounts of
  the document are ASCII, so the report text decides.
\<close>

definition latin1 :: "ustr \<Rightarrow> bool" where
  "latin1 s = list_all (\<lambda>c. c < 256) s"

text \<open>
  The button "Download PDF Report". \<open>write_image\<close> stands for \<^verbatim>\<open>pio.write_image\<close> of line
  298, which belongs to the plotting library and its renderer: for a figure it gives the
  message of the exception it raises, or \<open>None\<close> when it has written the image. Failures
  of the file system are outside the model.
\<close>

definition download_pdf :: "(figure \<Rightarrow> string option) \<Rightarrow> RecordTable world \<Rightarrow> RecordTable world \<times> ui list \<times> outcome" where
  "download_pdf write_image w =
     (if data w = [] then (w, [StWarning ''Please upload or add data first.''], Done)
      else
        (let k = computeKpis (data w);
             w1 = (case report w of
                     Some r \<Rightarrow> w\<lparr>report := Some (replace_char rupee Rs r)\<rparr>
                   | None \<Rightarrow> w)
         in case report w1 of
              None \<Rightarrow> (w1, [StWarning ''Generate the report first.''], Done)
            | Some r \<Rightarrow>
                (case fig_kpi w1 of
                   None \<Rightarrow>
                     (w1, [StWarning ''Please visit the Dashboard page first to generate KPI chart.''], Stopped)
                 | Some fig_to_use \<Rightarrow>
                     (case write_image fig_to_use of
                        Some e \<Rightarrow> (w1, [], Raised e)
                      | None \<Rightarrow>
                          (let w2 = w1\<lparr>chart_png := Some fig_to_use\<rparr>;
                               safe_report = replace_char rupee Rs r;
                               pdf = \<lparr>doc_COGQ = COGQ k, doc_COPQ = COPQ k, doc_total = total k,
                                      doc_chart = fig_to_use, doc_insights = safe_report\<rparr>
                           in if latin1 safe_report
                              then (w2\<lparr>pdf_file := Some pdf\<rparr>, [DownloadButton pdf], Done)
                              else (w2, [], RaisedEncoding))))))"

subsection \<open>The top of the script (lines 17-89)\<close>

text \<open>
  Line 17, \<^verbatim>\<open>load_dotenv()\<close>: the variables of the \<^verbatim>\<open>.env\<close> file are added to the
  environment; a variable that the environment has already keeps its value. No file is the
  empty map.
\<close>

definition load_dotenv :: "(string \<rightharpoonup> string) \<Rightarrow> (string \<rightharpoonup> string) \<Rightarrow> (string \<rightharpoonup> string)" where
  "load_dotenv dotenv_file environ = dotenv_file ++ environ"

text \<open>
  Line 84 builds the client at module level, on every run, before a page is chosen, and
  nothing catches what the constructor raises. The constructor belongs to the openai
  package, not to this repository, so it is an argument: given the value of the environment
  variable after line 17 it raises (\<open>Inl\<close>) or gives a client. \<open>page\<close> is the rest of the
  script, the page that the sidebar selects.
\<close>

definition run_script :: "(string option \<Rightarrow> string + 'client) \<Rightarrow> (string \<rightharpoonup> string) \<Rightarrow> (string \<rightharpoonup> string) \<Rightarrow> ('client \<Rightarrow> 'r) \<Rightarrow> string + 'r" where
  "run_script OpenAI dotenv_file environ page =
     (let getenv = load_dotenv dotenv_file environ
      in case OpenAI (getenv ''OPENAI_API_KEY'') of
           Inl e \<Rightarrow> Inl e
         | Inr client \<Rightarrow> Inr (page client))"

subsection \<open>Example inputs\<close>

definition cost_record :: "string \<Rightarrow> string \<Rightarrow> int64 \<Rightarrow> string \<Rightarrow> CostRecord" where
  "cost_record m c n d = \<lparr>Month = m, Category = c, Cost = n, Description = d\<rparr>"

text \<open>The table of the specification's scenario.\<close>

definition scenario_table :: RecordTable where
  "scenario_table =
     [cost_record ''Jan'' ''Prevention'' 100 ''x'', cost_record ''Jan'' ''Appraisal'' 50 ''y'',
      cost_record ''Feb'' ''Internal Failure'' 30 ''z'']"

text \<open>A table with a record in each of the first four months.\<close>

definition four_months :: RecordTable where
  "four_months =
     [cost_record ''Jan'' ''Prevention'' 100 ''x'', cost_record ''Feb'' ''Appraisal'' 50 ''y'',
      cost_record ''Mar'' ''Internal Failure'' 30 ''z'', cost_record ''Apr'' ''External Failure'' 20 ''w'']"

definition empty_world :: "'df \<Rightarrow> 'df world" where
  "empty_world df =
     \<lparr>data = df, report = None, fig_kpi = None, csv_file = None, chart_png = None, pdf_file = None\<rparr>"

text \<open>A stored table of one row, and an upload with the columns Month, Category, Amount.\<close>

definition stored_frame :: frame where
  "stored_frame = \<lparr>columns = schema, rows = [[Str ''Jan'', Str ''Prevention'', Num 100, Str ''x'']]\<rparr>"









text \<open>
  A client constructor for the examples: it raises when it is given no key. What the
  constructor of the package does with a key that is present is not part of the model.
\<close>

definition keyless_raises :: "string option \<Rightarrow> string + string" where
  "keyless_raises api_key = (case api_key of None \<Rightarrow> Inl ''OpenAIError'' | Some k \<Rightarrow> Inr k)"

section \<open>Properties\<close>

subsection \<open>Aggregation\<close>














lemma float64_exact:
  assumes "\<bar>sint w\<bar> \<le> 2 ^ 53"
  shows "float64_of_int64 w = sint w"
proof (cases "\<bar>sint w\<bar> < 2 ^ 53")
  case True
  have nk: "\<not> (2::int) ^ k \<le> \<bar>sint w\<bar>" if "53 \<le> k" for k :: nat
  proof
    assume le: "(2::int) ^ k \<le> \<bar>sint w\<bar>"
    from that have "(2::int) ^ 53 \<le> 2 ^ k" by (intro power_increasing) simp_all
    with le True show False by linarith
  qed
  have "\<forall>k\<in>set [53..<64]. \<not> (2::int) ^ k \<le> \<bar>sint w\<bar>"
  proof
    fix k :: nat assume "k \<in> set [53..<64]"
    then have "53 \<le> k" by (simp only: set_upt atLeastLessThan_iff)
    then show "\<not> (2::int) ^ k \<le> \<bar>sint w\<bar>" by (rule nk)
  qed
  then have "filter (\<lambda>k. (2::int) ^ k \<le> \<bar>sint w\<bar>) [53..<64] = []"
    by (simp only: filter_empty_conv)
  then have "float64_exponent (sint w) = 0"
    by (simp only: float64_exponent_def list.size)
  then show ?thesis by (simp add: float64_of_int64_def round_half_even_def)
next
  case False
  with assms have a: "\<bar>sint w\<bar> = 2 ^ 53" by simp
  have "float64_exponent (sint w) = 1"
    unfolding float64_exponent_def a by (simp add: upt_rec)
  moreover from a have "sint w = 2 ^ 53 \<or> sint w = - (2 ^ 53)" by linarith
  ultimately show ?thesis
    by (auto simp: float64_of_int64_def round_half_even_def)
qed



















text \<open>
  C3. The recent trend of the reports page is the tail of the grouped sums in the
  alphabetical order of the month names, not the tail of the monthly trend in calendar
  order. For records in Jan, Feb, Mar and Apr the page takes Feb, Jan, Mar, while the last
  three entries of the monthly trend are Feb, Mar, Apr; for the table of the scenario it
  takes Feb before Jan.
\<close>

theorem C3_month_trend_alphabetical:
  "month_trend four_months = [(''Feb'', 50), (''Jan'', 100), (''Mar'', 30)]
   \<and> tail 3 (monthlyTrend four_months) = [(''Feb'', 50), (''Mar'', 30), (''Apr'', 20)]
   \<and> month_trend scenario_table = [(''Feb'', 30), (''Jan'', 150)]
   \<and> tail 3 (monthlyTrend scenario_table) = [(''Jan'', 150), (''Feb'', 30)]"
proof -
  have small: "float64_of_int64 20 = 20" "float64_of_int64 30 = 30" "float64_of_int64 50 = 50"
      "float64_of_int64 100 = 100" "float64_of_int64 150 = 150"
    by (simp_all add: float64_exact)
  have a: "month_trend four_months = [(''Feb'', 50), (''Jan'', 100), (''Mar'', 30)]"
    by (simp add: month_trend_def tail_def groupby_sum_def four_months_def cost_record_def)
  have b: "tail 3 (monthlyTrend four_months) = [(''Feb'', 50), (''Mar'', 30), (''Apr'', 20)]"
    by (simp add: monthlyTrend_def reindex_def tail_def groupby_sum_def
        four_months_def cost_record_def month_order_def small)
  have c: "month_trend scenario_table = [(''Feb'', 30), (''Jan'', 150)]"
    by (simp add: month_trend_def tail_def groupby_sum_def scenario_table_def cost_record_def)
  have d: "tail 3 (monthlyTrend scenario_table) = [(''Jan'', 150), (''Feb'', 30)]"
    by (simp add: monthlyTrend_def reindex_def tail_def groupby_sum_def
        scenario_table_def cost_record_def month_order_def small)
  from a b c d show ?thesis by (intro conjI)
qed

subsection \<open>Ingestion\<close>










lemma realign_same:
  assumes "distinct cols" "length row = length cols"
  shows "realign cols cols row = row"
proof (rule nth_equalityI)
  show "length (realign cols cols row) = length row"
    using assms by (simp add: realign_def)
next
  fix i assume "i < length (realign cols cols row)"
  then have i: "i < length cols" by (simp add: realign_def)
  with assms have "map_of (zip cols row) (cols ! i) = Some (row ! i)"
    by (simp add: map_of_zip_nth)
  with i show "realign cols cols row ! i = row ! i"
    by (simp add: realign_def)
qed


lemma realign_absent:
  "i < length dst \<Longrightarrow> dst ! i \<notin> set src \<Longrightarrow> realign src dst row ! i = NaN"
proof -
  assume i: "i < length dst" and a: "dst ! i \<notin> set src"
  have "map_of (zip src row) (dst ! i) = None"
    using a by (auto simp: map_of_eq_None_iff dest: set_zip_leftD)
  with i show ?thesis by (simp add: realign_def)
qed













lemma realign_length: "length (realign src dst row) = length dst"
  by (simp add: realign_def)

lemma realign_aligned:
  assumes "distinct src" "length row = length src"
  shows "aligned src dst row (realign src dst row)"
  unfolding aligned_def
proof (intro conjI allI impI)
  show "length (realign src dst row) = length dst" by (rule realign_length)
next
  fix i assume "i < length dst" "dst ! i \<notin> set src"
  then show "realign src dst row ! i = NaN" by (rule realign_absent)
next
  fix i j assume i: "i < length dst" and j: "j < length src" and e: "src ! j = dst ! i"
  from assms j have "map_of (zip src row) (src ! j) = Some (row ! j)"
    by (simp add: map_of_zip_nth)
  with i e show "realign src dst row ! i = row ! j"
    by (simp add: realign_def)
qed


lemma wf_rows: "wf_frame f \<Longrightarrow> r \<in> set (rows f) \<Longrightarrow> length r = length (columns f)"
  by (simp add: wf_frame_def list_all_iff)







lemma aligned_same:
  assumes "distinct cols" "length row = length cols"
  shows "aligned cols cols row row"
  using realign_aligned [OF assms, of cols] realign_same [OF assms] by simp

















subsection \<open>Language model requests and PDF export\<close>

lemma replace_char_absent: "old \<notin> set s \<Longrightarrow> replace_char old new s = s"
  by (induction s) (auto simp: replace_char_def)

lemma replace_char_removes: "old \<notin> set new \<Longrightarrow> old \<notin> set (replace_char old new s)"
  by (induction s) (auto simp: replace_char_def)

lemma rupee_not_in_Rs: "rupee \<notin> set Rs"
  by (simp add: rupee_def Rs_def)

lemma replace_rupee_idem:
  "replace_char rupee Rs (replace_char rupee Rs s) = replace_char rupee Rs s"
  by (intro replace_char_absent replace_char_removes rupee_not_in_Rs)

lemma scenario_nonempty: "data (empty_world scenario_table) \<noteq> []"
  by (simp add: empty_world_def scenario_table_def)

text \<open>
  C8. When the request of either button fails, the page shows one error message that ends
  with the reason, the run ends normally, and the whole state (table, file, cached report
  and chart) is the state before.
\<close>

theorem C8_llm_failure:
  assumes "data w \<noteq> []"
  shows "(llm (suggestion_request (data w)) = Inl e \<longrightarrow>
            generate_suggestions llm w = (w, [StError (''Error: '' @ e)], Done))
       \<and> (llm (report_request (data w) selected_month) = Inl e \<longrightarrow>
            generate_report llm w selected_month = (w, [StError (''Error generating report: '' @ e)], Done))"
  using assms by (simp add: generate_suggestions_def generate_report_def)

theorem C8_llm_failure_witness:
  "data (empty_world scenario_table) \<noteq> []
   \<and> generate_suggestions (\<lambda>req. Inl ''Request timed out.'') (empty_world scenario_table) =
       (empty_world scenario_table, [StError ''Error: Request timed out.''], Done)
   \<and> generate_report (\<lambda>req. Inl ''Request timed out.'') (empty_world scenario_table) (Some ''Jan'') =
       (empty_world scenario_table, [StError ''Error generating report: Request timed out.''], Done)"
  using C8_llm_failure [OF scenario_nonempty, of "\<lambda>req. Inl ''Request timed out.''" "''Request timed out.''" "Some ''Jan''"]
    scenario_nonempty by simp

text \<open>
  C9. When the report text or the KPI chart is absent, the export writes no file: the PDF
  file, the chart image, the CSV file and the table are as before. The page shows a warning
  instead: without a report, to generate the report first; with a report and without a
  chart, to visit the dashboard page first, and the run stops there.
\<close>

theorem C9_export_prerequisites:
  assumes "report w = None \<or> fig_kpi w = None"
  shows "pdf_file (fst (download_pdf write_image w)) = pdf_file w
       \<and> chart_png (fst (download_pdf write_image w)) = chart_png w
       \<and> csv_file (fst (download_pdf write_image w)) = csv_file w
       \<and> data (fst (download_pdf write_image w)) = data w
       \<and> (data w \<noteq> [] \<and> report w = None \<longrightarrow>
            download_pdf write_image w = (w, [StWarning ''Generate the report first.''], Done))
       \<and> (data w \<noteq> [] \<and> report w \<noteq> None \<longrightarrow>
            snd (download_pdf write_image w) =
              ([StWarning ''Please visit the Dashboard page first to generate KPI chart.''], Stopped))
       \<and> (data w = [] \<longrightarrow> download_pdf write_image w = (w, [StWarning ''Please upload or add data first.''], Done))"
  using assms by (auto simp: download_pdf_def Let_def split: option.splits)

theorem C9_export_prerequisites_witness:
  "report (empty_world scenario_table) = None
   \<and> fig_kpi ((empty_world scenario_table)\<lparr>report := Some [82]\<rparr>) = None
   \<and> download_pdf (\<lambda>fig. None) (empty_world scenario_table) =
       (empty_world scenario_table, [StWarning ''Generate the report first.''], Done)
   \<and> pdf_file (fst (download_pdf (\<lambda>fig. None) ((empty_world scenario_table)\<lparr>report := Some [82]\<rparr>))) = None
   \<and> snd (download_pdf (\<lambda>fig. None) ((empty_world scenario_table)\<lparr>report := Some [82]\<rparr>)) =
       ([StWarning ''Please visit the Dashboard page first to generate KPI chart.''], Stopped)"
proof -
  have a: "report (empty_world scenario_table) = None \<or> fig_kpi (empty_world scenario_table) = None"
    by (simp add: empty_world_def)
  have b: "report ((empty_world scenario_table)\<lparr>report := Some [82]\<rparr>) = None
           \<or> fig_kpi ((empty_world scenario_table)\<lparr>report := Some [82]\<rparr>) = None"
    by (simp add: empty_world_def)
  have n: "data ((empty_world scenario_table)\<lparr>report := Some [82]\<rparr>) \<noteq> []"
    using scenario_nonempty by simp
  have r: "report (empty_world scenario_table) = None" "pdf_file (empty_world scenario_table) = None"
    by (simp_all add: empty_world_def)
  have f: "fig_kpi ((empty_world scenario_table)\<lparr>report := Some [82]\<rparr>) = None"
    by (simp add: empty_world_def)
  from C9_export_prerequisites [OF a, of "\<lambda>fig. None"] C9_export_prerequisites [OF b, of "\<lambda>fig. None"]
    n r f scenario_nonempty
  show ?thesis by simp
qed

text \<open>
  C10. Pressing the export button replaces every rupee sign of the stored report text by
  "Rs." before anything is checked: the stored text is the replaced one also when the
  export stops for the missing chart, when the chart cannot be written and when the PDF
  library rejects the text; it has no rupee sign left, and it differs from the generated
  text whenever that had one. When the chart is written and the replaced text is Latin-1,
  the PDF embeds the replaced text. A later export finds the replaced text and, where it
  writes a PDF, embeds it again.
\<close>

theorem C10_export_rewrites_report:
  assumes "data w \<noteq> []" and "report w = Some r"
  shows "report (fst (download_pdf write_image w)) = Some (replace_char rupee Rs r)
       \<and> rupee \<notin> set (replace_char rupee Rs r)
       \<and> (rupee \<in> set r \<longrightarrow> report (fst (download_pdf write_image w)) \<noteq> report w)
       \<and> (fig_kpi w = None \<longrightarrow>
            download_pdf write_image w =
              (w\<lparr>report := Some (replace_char rupee Rs r)\<rparr>,
               [StWarning ''Please visit the Dashboard page first to generate KPI chart.''], Stopped))
       \<and> (\<forall>fig e. fig_kpi w = Some fig \<and> write_image fig = Some e \<longrightarrow>
            download_pdf write_image w = (w\<lparr>report := Some (replace_char rupee Rs r)\<rparr>, [], Raised e))
       \<and> (\<forall>fig. fig_kpi w = Some fig \<and> write_image fig = None \<and> \<not> latin1 (replace_char rupee Rs r) \<longrightarrow>
            download_pdf write_image w =
              (w\<lparr>report := Some (replace_char rupee Rs r), chart_png := Some fig\<rparr>, [], RaisedEncoding))
       \<and> (\<forall>fig. fig_kpi w = Some fig \<and> write_image fig = None \<and> latin1 (replace_char rupee Rs r) \<longrightarrow>
            pdf_file (fst (download_pdf write_image w)) =
              Some \<lparr>doc_COGQ = COGQ (computeKpis (data w)), doc_COPQ = COPQ (computeKpis (data w)),
                    doc_total = total (computeKpis (data w)), doc_chart = fig,
                    doc_insights = replace_char rupee Rs r\<rparr>
            \<and> pdf_file (fst (download_pdf write_image (fst (download_pdf write_image w)))) =
                pdf_file (fst (download_pdf write_image w)))
       \<and> report (fst (download_pdf write_image (fst (download_pdf write_image w)))) =
           Some (replace_char rupee Rs r)"
proof -
  let ?r' = "replace_char rupee Rs r"
  let ?w' = "fst (download_pdf write_image w)"
  have nr: "rupee \<notin> set ?r'"
    by (intro replace_char_removes rupee_not_in_Rs)
  have rep: "\<And>v s. data v \<noteq> [] \<Longrightarrow> report v = Some s \<Longrightarrow>
               report (fst (download_pdf write_image v)) = Some (replace_char rupee Rs s)"
    by (auto simp: download_pdf_def Let_def split: option.splits)
  have dat: "data ?w' = data w"
    by (auto simp: download_pdf_def Let_def split: option.splits)
  have fig: "fig_kpi ?w' = fig_kpi w"
    by (auto simp: download_pdf_def Let_def split: option.splits)
  have r1: "report ?w' = Some ?r'"
    using assms by (rule rep)
  have pdf: "\<And>v s f. data v \<noteq> [] \<Longrightarrow> report v = Some s \<Longrightarrow> fig_kpi v = Some f \<Longrightarrow>
               write_image f = None \<Longrightarrow> latin1 (replace_char rupee Rs s) \<Longrightarrow>
               pdf_file (fst (download_pdf write_image v)) =
                 Some \<lparr>doc_COGQ = COGQ (computeKpis (data v)), doc_COPQ = COPQ (computeKpis (data v)),
                    doc_total = total (computeKpis (data v)), doc_chart = f,
                    doc_insights = replace_char rupee Rs s\<rparr>"
    by (simp add: download_pdf_def Let_def replace_rupee_idem)
  have c3: "rupee \<in> set r \<longrightarrow> report ?w' \<noteq> report w"
    using nr r1 assms(2) by auto
  have c4: "fig_kpi w = None \<longrightarrow>
            download_pdf write_image w =
              (w\<lparr>report := Some ?r'\<rparr>,
               [StWarning ''Please visit the Dashboard page first to generate KPI chart.''], Stopped)"
    using assms by (simp add: download_pdf_def Let_def)
  have c5: "\<forall>fig e. fig_kpi w = Some fig \<and> write_image fig = Some e \<longrightarrow>
            download_pdf write_image w = (w\<lparr>report := Some ?r'\<rparr>, [], Raised e)"
    using assms by (simp add: download_pdf_def Let_def)
  have c6: "\<forall>fig. fig_kpi w = Some fig \<and> write_image fig = None \<and> \<not> latin1 ?r' \<longrightarrow>
            download_pdf write_image w = (w\<lparr>report := Some ?r', chart_png := Some fig\<rparr>, [], RaisedEncoding)"
    using assms by (simp add: download_pdf_def Let_def replace_rupee_idem)
  have c7: "\<forall>fig. fig_kpi w = Some fig \<and> write_image fig = None \<and> latin1 ?r' \<longrightarrow>
            pdf_file ?w' =
              Some \<lparr>doc_COGQ = COGQ (computeKpis (data w)), doc_COPQ = COPQ (computeKpis (data w)),
                    doc_total = total (computeKpis (data w)), doc_chart = fig,
                    doc_insights = ?r'\<rparr>
            \<and> pdf_file (fst (download_pdf write_image ?w')) = pdf_file ?w'"
  proof (intro allI impI)
    fix f assume h: "fig_kpi w = Some f \<and> write_image f = None \<and> latin1 ?r'"
    then have f: "fig_kpi w = Some f" and wi: "write_image f = None" and l: "latin1 ?r'"
      by simp_all
    have p1: "pdf_file ?w' =
              Some \<lparr>doc_COGQ = COGQ (computeKpis (data w)), doc_COPQ = COPQ (computeKpis (data w)),
                    doc_total = total (computeKpis (data w)), doc_chart = f, doc_insights = ?r'\<rparr>"
      using pdf [OF assms f wi l] .
    have d': "data ?w' \<noteq> []" using assms(1) by (simp add: dat)
    have f': "fig_kpi ?w' = Some f" using f by (simp add: fig)
    have l': "latin1 (replace_char rupee Rs ?r')" using l by (simp add: replace_rupee_idem)
    have p2: "pdf_file (fst (download_pdf write_image ?w')) =
              Some \<lparr>doc_COGQ = COGQ (computeKpis (data w)), doc_COPQ = COPQ (computeKpis (data w)),
                    doc_total = total (computeKpis (data w)), doc_chart = f, doc_insights = ?r'\<rparr>"
      using pdf [OF d' r1 f' wi l'] by (simp add: dat replace_rupee_idem)
    from p1 p2 show "pdf_file ?w' =
              Some \<lparr>doc_COGQ = COGQ (computeKpis (data w)), doc_COPQ = COPQ (computeKpis (data w)),
                    doc_total = total (computeKpis (data w)), doc_chart = f, doc_insights = ?r'\<rparr>
            \<and> pdf_file (fst (download_pdf write_image ?w')) = pdf_file ?w'"
      by simp
  qed
  have c8: "report (fst (download_pdf write_image ?w')) = Some ?r'"
    using rep [of ?w' ?r'] assms(1) r1 by (simp add: dat replace_rupee_idem)
  from r1 nr c3 c4 c5 c6 c7 c8 show ?thesis by (intro conjI)
qed

theorem C10_export_rewrites_report_witness:
  "data ((empty_world scenario_table)\<lparr>report := Some [8377, 53]\<rparr>) \<noteq> []
   \<and> report ((empty_world scenario_table)\<lparr>report := Some [8377, 53]\<rparr>) = Some [8377, 53]
   \<and> download_pdf (\<lambda>fig. None) ((empty_world scenario_table)\<lparr>report := Some [8377, 53]\<rparr>) =
       ((empty_world scenario_table)\<lparr>report := Some [82, 115, 46, 53]\<rparr>,
        [StWarning ''Please visit the Dashboard page first to generate KPI chart.''], Stopped)
   \<and> download_pdf (\<lambda>fig. None) ((empty_world scenario_table)\<lparr>report := Some [8377, 8226], fig_kpi := Some []\<rparr>) =
       ((empty_world scenario_table)\<lparr>report := Some [82, 115, 46, 8226], fig_kpi := Some [], chart_png := Some []\<rparr>,
        [], RaisedEncoding)"
proof -
  let ?w1 = "(empty_world scenario_table)\<lparr>report := Some [8377, 53]\<rparr>"
  let ?w2 = "(empty_world scenario_table)\<lparr>report := Some [8377, 8226], fig_kpi := Some []\<rparr>"
  have d: "data ?w1 \<noteq> []" "data ?w2 \<noteq> []"
    using scenario_nonempty by simp_all
  have r: "report ?w1 = Some [8377, 53]" "report ?w2 = Some [8377, 8226]"
    by simp_all
  have f: "fig_kpi ?w1 = None" "fig_kpi ?w2 = Some []"
    by (simp_all add: empty_world_def)
  have e: "replace_char rupee Rs [8377, 53] = [82, 115, 46, 53]"
      "replace_char rupee Rs [8377, 8226] = [82, 115, 46, 8226]"
    by (simp_all add: replace_char_def rupee_def Rs_def)
  have l: "\<not> latin1 [82, 115, 46, 8226]"
    by (simp add: latin1_def)
  have a: "download_pdf (\<lambda>fig. None) ?w1 =
       ((empty_world scenario_table)\<lparr>report := Some [82, 115, 46, 53]\<rparr>,
        [StWarning ''Please visit the Dashboard page first to generate KPI chart.''], Stopped)"
    using C10_export_rewrites_report [OF d(1) r(1), of "\<lambda>fig. None"] f(1) e(1) by simp
  have b: "download_pdf (\<lambda>fig. None) ?w2 =
       ((empty_world scenario_table)\<lparr>report := Some [82, 115, 46, 8226], fig_kpi := Some [], chart_png := Some []\<rparr>,
        [], RaisedEncoding)"
    using C10_export_rewrites_report [OF d(2) r(2), of "\<lambda>fig. None"] f(2) e(2) l by simp
  from d(1) r(1) a b show ?thesis by (intro conjI)
qed

subsection \<open>Start of the script\<close>

text \<open>
  C2. Line 84 is not guarded: when the key is neither in the environment nor in the
  \<^verbatim>\<open>.env\<close> file and the client constructor raises for a missing key, every run of the
  script ends with that exception before its page is reached, whatever the page: the
  dashboard and the upload page fail like the two pages that call the language model.
\<close>

theorem C2_absent_key_ends_every_run:
  assumes "OpenAI None = Inl e"
    and "environ ''OPENAI_API_KEY'' = None"
    and "dotenv_file ''OPENAI_API_KEY'' = None"
  shows "run_script OpenAI dotenv_file environ page = Inl e"
  using assms by (simp add: run_script_def load_dotenv_def map_add_def)

theorem C2_absent_key_ends_every_run_witness:
  "keyless_raises None = Inl ''OpenAIError''
   \<and> [''PATH'' \<mapsto> ''/usr/bin''] ''OPENAI_API_KEY'' = None
   \<and> run_script keyless_raises Map.empty [''PATH'' \<mapsto> ''/usr/bin'']
        (\<lambda>client. dashboard (empty_world scenario_table)) = Inl ''OpenAIError''
   \<and> run_script keyless_raises Map.empty [''PATH'' \<mapsto> ''/usr/bin'']
        (\<lambda>client. upload_file (empty_world stored_frame) None) = Inl ''OpenAIError''"
proof -
  have k: "keyless_raises None = Inl ''OpenAIError''"
    by (simp add: keyless_raises_def)
  have p: "[''PATH'' \<mapsto> ''/usr/bin''] ''OPENAI_API_KEY'' = None"
    by simp
  have t1: "run_script keyless_raises Map.empty [''PATH'' \<mapsto> ''/usr/bin'']
        (\<lambda>client. dashboard (empty_world scenario_table)) = Inl ''OpenAIError''"
    using C2_absent_key_ends_every_run [where OpenAI = keyless_raises and e = "''OpenAIError''"
        and environ = "[''PATH'' \<mapsto> ''/usr/bin'']" and dotenv_file = Map.empty
        and page = "\<lambda>client. dashboard (empty_world scenario_table)"] k p
    by simp
  have t2: "run_script keyless_raises Map.empty [''PATH'' \<mapsto> ''/usr/bin'']
        (\<lambda>client. upload_file (empty_world stored_frame) None) = Inl ''OpenAIError''"
    using C2_absent_key_ends_every_run [where OpenAI = keyless_raises and e = "''OpenAIError''"
        and environ = "[''PATH'' \<mapsto> ''/usr/bin'']" and dotenv_file = Map.empty
        and page = "\<lambda>client. upload_file (empty_world stored_frame) None"] k p
    by simp
  from k p t1 t2 show ?thesis by (intro conjI)
qed

end
